theory Spec2Isabelle
  imports Complex_Main "HOL-Library.Word" "HOL-Library.Sublist" "HOL-Library.Log_Nat"
begin

section \<open>BearAI: the generative-media adapter and the live-audio bridge\<close>

text \<open>
  A shallow embedding of \<^verbatim>\<open>geminiService\<close> (the provider client with its video poll
  loop) and of the two audio callbacks of \<^verbatim>\<open>toggleLiveVoice\<close> in \<^verbatim>\<open>App.tsx\<close>.
  The provider, the timer, \<^verbatim>\<open>fetch\<close> and the browser's audio output are collaborators:
  they appear as oracles in a record, and every call made to one of them is written to
  a log, so that "before any network call" and "no download attempt" are statements
  about that log.
\<close>

subsection \<open>Strings\<close>

text \<open>
  A JavaScript string is a sequence of UTF-16 code units. Literals of the source are
  ASCII and written through \<open>js\<close>.
\<close>

type_synonym code_unit = "16 word"
type_synonym jsstring = "code_unit list"

definition js :: "string \<Rightarrow> jsstring" where
  "js s = map (\<lambda>c. word_of_nat (of_char c)) s"

definition backtick :: code_unit where
  "backtick = 0x60"

definition newline :: code_unit where
  "newline = 0x0A"

definition comma :: code_unit where
  "comma = 0x2C"

definition dot :: code_unit where
  "dot = 0x2E"

definition space :: code_unit where
  "space = 0x20"

text \<open>
  The class \<^verbatim>\<open>[a-z]\<close> under the flag \<^verbatim>\<open>i\<close> (without \<^verbatim>\<open>u\<close>): a code unit matches when its
  canonical upper case is one of A to Z, and a code unit from 128 on is never mapped
  into ASCII, so exactly the ASCII letters match.
\<close>

definition is_letter :: "code_unit \<Rightarrow> bool" where
  "is_letter c \<longleftrightarrow> (0x61 \<le> c \<and> c \<le> 0x7A) \<or> (0x41 \<le> c \<and> c \<le> 0x5A)"

text \<open>
  What \<^verbatim>\<open>String.prototype.trim\<close> removes: the WhiteSpace and LineTerminator code points
  of ECMAScript.
\<close>

definition is_white_space :: "code_unit \<Rightarrow> bool" where
  "is_white_space c \<longleftrightarrow>
     c \<in> {0x09, 0x0A, 0x0B, 0x0C, 0x0D, 0x20, 0xA0, 0x1680, 0x2028, 0x2029, 0x202F,
          0x205F, 0x3000, 0xFEFF} \<or> (0x2000 \<le> c \<and> c \<le> 0x200A)"

definition trim :: "jsstring \<Rightarrow> jsstring" where
  "trim s = rev (dropWhile is_white_space (rev (dropWhile is_white_space s)))"

text \<open>The optional \<^verbatim>\<open>\n?\<close> at the end of a fence match.\<close>

fun drop_newline :: "jsstring \<Rightarrow> jsstring" where
  "drop_newline [] = []"
| "drop_newline (c # cs) = (if c = newline then cs else c # cs)"

text \<open>
  \<^verbatim>\<open>s.replace(/```[a-z]*\n?|```/gi, '')\<close>. The scan goes left to right. At three
  backticks the first alternative matches, greedily: the letters that follow, then one
  newline if there is one; nothing after them can fail, so there is no backtracking and
  the second alternative is never tried. The scan resumes after the match. Anywhere
  else one code unit is kept.
\<close>

function replace_fences :: "jsstring \<Rightarrow> jsstring" where
  "replace_fences (a # b # c # rest) =
     (if a = backtick \<and> b = backtick \<and> c = backtick
      then replace_fences (drop_newline (dropWhile is_letter rest))
      else a # replace_fences (b # c # rest))"
| "replace_fences [a, b] = [a, b]"
| "replace_fences [a] = [a]"
| "replace_fences [] = []"
  by pat_completeness auto

lemma length_drop_newline: "length (drop_newline s) \<le> length s"
  by (cases s) auto

termination replace_fences
proof (relation "measure length")
  show "wf (measure length)" by simp
next
  fix a b c :: code_unit and rest :: jsstring
  have "length (drop_newline (dropWhile is_letter rest)) \<le> length rest"
    using length_drop_newline [of "dropWhile is_letter rest"]
      length_dropWhile_le [of is_letter rest] by linarith
  then show "(drop_newline (dropWhile is_letter rest), a # b # c # rest) \<in> measure length"
    by simp
next
  fix a b c :: code_unit and rest :: jsstring
  show "(b # c # rest, a # b # c # rest) \<in> measure length" by simp
qed

text \<open>Whether a string holds a Markdown code-fence marker: three backticks in a row.\<close>

fun contains_fence :: "jsstring \<Rightarrow> bool" where
  "contains_fence (a # b # c # rest) =
     ((a = backtick \<and> b = backtick \<and> c = backtick) \<or> contains_fence (b # c # rest))"
| "contains_fence [a, b] = False"
| "contains_fence [a] = False"
| "contains_fence [] = False"

text \<open>\<^verbatim>\<open>s.split(sep)\<close> for a separator of one code unit: never the empty array.\<close>

fun split :: "code_unit \<Rightarrow> jsstring \<Rightarrow> jsstring list" where
  "split sep [] = [[]]"
| "split sep (c # cs) =
     (if c = sep then [] # split sep cs
      else (case split sep cs of [] \<Rightarrow> [[c]] | w # ws \<Rightarrow> (c # w) # ws))"

text \<open>\<^verbatim>\<open>xs[i]\<close>: \<^verbatim>\<open>undefined\<close> out of range.\<close>

definition index :: "'a list \<Rightarrow> nat \<Rightarrow> 'a option" where
  "index xs i = (if i < length xs then Some (xs ! i) else None)"

text \<open>Truthiness of a string that may be \<^verbatim>\<open>undefined\<close>: defined and not empty.\<close>

definition truthy :: "jsstring option \<Rightarrow> bool" where
  "truthy v = (case v of None \<Rightarrow> False | Some s \<Rightarrow> s \<noteq> [])"

text \<open>A value inside a template literal: \<^verbatim>\<open>undefined\<close> prints as the word.\<close>

definition interpolate :: "jsstring option \<Rightarrow> jsstring" where
  "interpolate v = (case v of None \<Rightarrow> js ''undefined'' | Some s \<Rightarrow> s)"

subsection \<open>Errors\<close>

text \<open>
  \<open>Error m\<close> is \<^verbatim>\<open>new Error(m)\<close> thrown by the service itself; \<open>TypeError p\<close> is the
  engine's error for reading property \<open>p\<close> of \<^verbatim>\<open>undefined\<close>; \<open>RangeError\<close> is the typed-array
  constructor's; \<open>Rejected\<close> is whatever a collaborator throws, passed through.
\<close>

datatype error = Error string | TypeError string | RangeError | Rejected string

definition MissingCredential :: error where
  "MissingCredential = Error ''GEMINI_API_KEY is not set''"

definition NoResultProduced :: error where
  "NoResultProduced = Error ''No image generated''"

definition GenerationFailed :: error where
  "GenerationFailed = Error ''Video generation failed''"

subsection \<open>The shapes read from the provider\<close>

record inline_data =
  data :: "jsstring option"
  mimeType :: "jsstring option"

record part =
  inlineData :: "inline_data option"
  part_text :: "jsstring option"

record content =
  parts :: "part list option"

record grounding_metadata =
  groundingChunks :: "jsstring list option"

record candidate =
  candidate_content :: "content option"
  groundingMetadata :: "grounding_metadata option"

record generate_content_response =
  response_text :: "jsstring option"
  candidates :: "candidate list option"

record video_file =
  uri :: "jsstring option"

record generated_video =
  video :: "video_file option"

record generate_videos_response =
  generatedVideos :: "generated_video list option"

record operation =
  op_done :: "bool option"
  op_response :: "generate_videos_response option"

record server_content =
  modelTurn :: "content option"

record live_message =
  serverContent :: "server_content option"

subsection \<open>The collaborators\<close>

datatype aspect = Wide | Tall

datatype config =
    Temperature rat
  | ImageConfig jsstring jsstring
  | NoConfig

datatype request_part =
    Text jsstring
  | InlineData "jsstring option" string

type_synonym blob = "8 word list"

text \<open>
  Every call that leaves the process. A status check is logged with the operation it
  was issued for and with the report it received.
\<close>

datatype call =
    GenerateContent string "request_part list" config
  | SendMessage string jsstring
  | GenerateVideos string jsstring aspect
  | SetTimeout nat
  | GetVideosOperation operation "error + operation"
  | Fetch jsstring "jsstring option"
  | LiveConnect string

text \<open>
  The provider and the browser, as oracles. The \<open>n\<close>-th status check of a video job
  may answer anything, so \<open>getVideosOperation\<close> takes \<open>n\<close>.
\<close>

record provider =
  generateContent :: "string \<Rightarrow> request_part list \<Rightarrow> config \<Rightarrow> error + generate_content_response"
  sendMessage :: "string \<Rightarrow> jsstring \<Rightarrow> error + generate_content_response"
  generateVideos :: "string \<Rightarrow> jsstring \<Rightarrow> aspect \<Rightarrow> error + operation"
  getVideosOperation :: "nat \<Rightarrow> operation \<Rightarrow> error + operation"
  fetch_blob :: "jsstring \<Rightarrow> jsstring option \<Rightarrow> error + blob"
  createObjectURL :: "blob \<Rightarrow> jsstring"
  connect :: "string \<Rightarrow> error + nat"

record env =
  GEMINI_API_KEY :: "jsstring option"

datatype client = GoogleGenAI jsstring

subsection \<open>geminiService\<close>

text \<open>\<^verbatim>\<open>getAI\<close>: \<^verbatim>\<open>!apiKey\<close> holds for an unset key and for the empty string.\<close>

definition getAI :: "env \<Rightarrow> error + client" where
  "getAI e =
     (case GEMINI_API_KEY e of
        None \<Rightarrow> Inl MissingCredential
      | Some apiKey \<Rightarrow> if apiKey = [] then Inl MissingCredential else Inr (GoogleGenAI apiKey))"

text \<open>\<^verbatim>\<open>xs.pop()\<close> on a fresh array: its last element, \<^verbatim>\<open>undefined\<close> when empty.\<close>

definition pop :: "'a list \<Rightarrow> 'a option" where
  "pop xs = (if xs = [] then None else Some (last xs))"

definition indent :: jsstring where
  "indent = replicate 10 space"

definition edit_prompt :: "jsstring \<Rightarrow> jsstring \<Rightarrow> jsstring \<Rightarrow> jsstring" where
  "edit_prompt code instruction filename =
     js ''You are BearAI, an expert code assistant. '' @ [newline] @
     indent @ js ''Edit the provided code based on the user'' @ [0x27] @ js ''s instruction.'' @ [newline] @
     indent @ js ''Return ONLY the complete updated code. '' @ [newline] @
     indent @ js ''Do not include markdown code blocks or explanations.'' @ [newline] @
     indent @ [newline] @
     indent @ js ''Filename: '' @ filename @ [newline] @
     indent @ js ''Language: '' @ interpolate (pop (split dot filename)) @ [newline] @
     indent @ [newline] @
     indent @ js ''Current Code:'' @ [newline] @
     indent @ code @ [newline] @
     indent @ [newline] @
     indent @ js ''Instruction: '' @ instruction"

text \<open>
  \<^verbatim>\<open>response.text?.replace(...).trim()\<close>: \<^verbatim>\<open>undefined\<close> when the text is.
\<close>

definition strip_fences :: "jsstring option \<Rightarrow> jsstring option" where
  "strip_fences t = map_option (\<lambda>s. trim (replace_fences s)) t"

definition editCode ::
  "env \<Rightarrow> provider \<Rightarrow> jsstring \<Rightarrow> jsstring \<Rightarrow> jsstring \<Rightarrow> call list \<times> (error + jsstring)" where
  "editCode e P code instruction filename =
     (case getAI e of
        Inl err \<Rightarrow> ([], Inl err)
      | Inr ai \<Rightarrow>
          (let contents = [Text (edit_prompt code instruction filename)];
               cfg = Temperature (2 / 10)
           in ([GenerateContent ''gemini-3.1-pro-preview'' contents cfg],
               case generateContent P ''gemini-3.1-pro-preview'' contents cfg of
                 Inl err \<Rightarrow> Inl err
               | Inr response \<Rightarrow>
                   (let stripped = strip_fences (response_text response)
                    in Inr (if truthy stripped then the stripped else code)))))"

text \<open>\<^verbatim>\<open>xs?.[0]\<close> of an array that may be \<^verbatim>\<open>undefined\<close>.\<close>

definition first :: "'a list option \<Rightarrow> 'a option" where
  "first xs = (case xs of None \<Rightarrow> None | Some ys \<Rightarrow> index ys 0)"

definition chat ::
  "env \<Rightarrow> provider \<Rightarrow> jsstring \<Rightarrow> call list \<times> (error + jsstring option \<times> jsstring list)" where
  "chat e P message =
     (case getAI e of
        Inl err \<Rightarrow> ([], Inl err)
      | Inr ai \<Rightarrow>
          ([SendMessage ''gemini-3.1-pro-preview'' message],
           case sendMessage P ''gemini-3.1-pro-preview'' message of
             Inl err \<Rightarrow> Inl err
           | Inr resp \<Rightarrow>
               Inr (response_text resp,
                    case Option.bind (Option.bind (first (candidates resp)) groundingMetadata)
                           groundingChunks of
                      None \<Rightarrow> []
                    | Some chunks \<Rightarrow> chunks)))"

text \<open>
  \<^verbatim>\<open>response.candidates?.[0]?.content?.parts.find(p => p.inlineData)\<close>: the chain stops
  with \<^verbatim>\<open>undefined\<close> at a missing candidate or content; \<^verbatim>\<open>parts\<close> is read without
  \<^verbatim>\<open>?.\<close>, so \<^verbatim>\<open>find\<close> on a content that has no \<^verbatim>\<open>parts\<close> is a TypeError.
\<close>

definition find_image_part :: "generate_content_response \<Rightarrow> error + part option" where
  "find_image_part resp =
     (case Option.bind (first (candidates resp)) candidate_content of
        None \<Rightarrow> Inr None
      | Some c \<Rightarrow>
          (case parts c of
             None \<Rightarrow> Inl (TypeError ''find'')
           | Some ps \<Rightarrow> Inr (find (\<lambda>p. inlineData p \<noteq> None) ps)))"

definition generateImage ::
  "env \<Rightarrow> provider \<Rightarrow> jsstring \<Rightarrow> jsstring option \<Rightarrow> jsstring option \<Rightarrow>
   call list \<times> (error + jsstring)" where
  "generateImage e P prompt aspectRatio imageSize =
     (case getAI e of
        Inl err \<Rightarrow> ([], Inl err)
      | Inr ai \<Rightarrow>
          (let cfg = ImageConfig (case aspectRatio of None \<Rightarrow> js ''1:1'' | Some a \<Rightarrow> a)
                                 (case imageSize of None \<Rightarrow> js ''1K'' | Some z \<Rightarrow> z)
           in ([GenerateContent ''gemini-3-pro-image-preview'' [Text prompt] cfg],
               case generateContent P ''gemini-3-pro-image-preview'' [Text prompt] cfg of
                 Inl err \<Rightarrow> Inl err
               | Inr resp \<Rightarrow>
                   (case find_image_part resp of
                      Inl err \<Rightarrow> Inl err
                    | Inr p \<Rightarrow>
                        (case Option.bind p inlineData of
                           Some d \<Rightarrow> Inr (js ''data:image/png;base64,'' @ interpolate (data d))
                         | None \<Rightarrow> Inl NoResultProduced)))))"

text \<open>
  The poll loop of \<^verbatim>\<open>generateVideo\<close>. It has no bound in the source; \<open>fuel\<close> is the
  number of rounds looked at, and \<open>None\<close> says the loop is still polling when they are
  used up. \<open>n\<close> counts the status checks issued before this round.
\<close>

fun poll ::
  "nat \<Rightarrow> provider \<Rightarrow> nat \<Rightarrow> operation \<Rightarrow> call list \<times> (error + operation) option" where
  "poll 0 P n operation =
     (if op_done operation = Some True then ([], Some (Inr operation)) else ([], None))"
| "poll (Suc fuel) P n operation =
     (if op_done operation = Some True then ([], Some (Inr operation))
      else (let report = getVideosOperation P n operation
            in case report of
                 Inl err \<Rightarrow>
                   ([SetTimeout 5000, GetVideosOperation operation report], Some (Inl err))
               | Inr operation' \<Rightarrow>
                   (let (calls, r) = poll fuel P (Suc n) operation'
                    in (SetTimeout 5000 # GetVideosOperation operation report # calls, r))))"

text \<open>\<^verbatim>\<open>operation.response?.generatedVideos?.[0]?.video?.uri\<close>\<close>

definition downloadLink :: "operation \<Rightarrow> jsstring option" where
  "downloadLink operation =
     Option.bind (Option.bind (first (Option.bind (op_response operation) generatedVideos)) video)
       uri"

definition generateVideo ::
  "nat \<Rightarrow> env \<Rightarrow> provider \<Rightarrow> jsstring \<Rightarrow> aspect option \<Rightarrow>
   call list \<times> (error + jsstring) option" where
  "generateVideo fuel e P prompt aspectRatio =
     (case getAI e of
        Inl err \<Rightarrow> ([], Some (Inl err))
      | Inr ai \<Rightarrow>
          (let ratio = (case aspectRatio of None \<Rightarrow> Wide | Some a \<Rightarrow> a);
               submit = GenerateVideos ''veo-3.1-fast-generate-preview'' prompt ratio
           in case generateVideos P ''veo-3.1-fast-generate-preview'' prompt ratio of
                Inl err \<Rightarrow> ([submit], Some (Inl err))
              | Inr operation \<Rightarrow>
                  (case poll fuel P 0 operation of
                     (calls, None) \<Rightarrow> (submit # calls, None)
                   | (calls, Some (Inl err)) \<Rightarrow> (submit # calls, Some (Inl err))
                   | (calls, Some (Inr last_report)) \<Rightarrow>
                       (if \<not> truthy (downloadLink last_report)
                        then (submit # calls, Some (Inl GenerationFailed))
                        else (submit # calls @ [Fetch (the (downloadLink last_report)) (GEMINI_API_KEY e)],
                              Some (case fetch_blob P (the (downloadLink last_report)) (GEMINI_API_KEY e) of
                                      Inl err \<Rightarrow> Inl err
                                    | Inr b \<Rightarrow> Inr (createObjectURL P b)))))))"

text \<open>
  \<^verbatim>\<open>imageBuffer.split(',')[1]\<close> is the second piece of the split, \<^verbatim>\<open>undefined\<close> when
  there is no comma; it is sent as it is.
\<close>

definition analyzeImage ::
  "env \<Rightarrow> provider \<Rightarrow> jsstring \<Rightarrow> jsstring \<Rightarrow> call list \<times> (error + jsstring option)" where
  "analyzeImage e P imageBuffer prompt =
     (case getAI e of
        Inl err \<Rightarrow> ([], Inl err)
      | Inr ai \<Rightarrow>
          (let contents = [InlineData (index (split comma imageBuffer) 1) ''image/png'', Text prompt]
           in ([GenerateContent ''gemini-3.1-pro-preview'' contents NoConfig],
               case generateContent P ''gemini-3.1-pro-preview'' contents NoConfig of
                 Inl err \<Rightarrow> Inl err
               | Inr resp \<Rightarrow> Inr (response_text resp))))"

definition connectLive :: "env \<Rightarrow> provider \<Rightarrow> call list \<times> (error + nat)" where
  "connectLive e P =
     (case getAI e of
        Inl err \<Rightarrow> ([], Inl err)
      | Inr ai \<Rightarrow>
          ([LiveConnect ''gemini-2.5-flash-native-audio-preview-09-2025''],
           connect P ''gemini-2.5-flash-native-audio-preview-09-2025''))"

subsection \<open>The live-voice callbacks of App.tsx\<close>









text \<open>
  Rounding to a binary floating-point format with a significand of \<open>p\<close> bits and least
  normal exponent \<open>emin\<close>: to the nearest value of the format, ties to the even
  significand. The exponent of \<open>x\<close> is that of its leading bit, and \<open>emin\<close> below the
  normal range, where the spacing no longer shrinks. Overflow to an infinity is left
  out: the numbers rounded here are below 2 in magnitude.
\<close>

definition round_half_even :: "real \<Rightarrow> int" where
  "round_half_even x =
     (let f = \<lfloor>x\<rfloor>; r = x - of_int f
      in if r < 1 / 2 then f else if 1 / 2 < r then f + 1 else if even f then f else f + 1)"

definition exponent :: "int \<Rightarrow> real \<Rightarrow> int" where
  "exponent emin x = emin + max 0 (bitlen \<lfloor>\<bar>x\<bar> * 2 powi (- emin)\<rfloor> - 1)"

definition round_to :: "nat \<Rightarrow> int \<Rightarrow> real \<Rightarrow> real" where
  "round_to p emin x =
     (let q = 2 powi (exponent emin x - (int p - 1))
      in of_int (round_half_even (x / q)) * q)"

text \<open>The result of an arithmetic operation, a double; and a store into a \<^verbatim>\<open>Float32Array\<close>.\<close>

definition to_double :: "real \<Rightarrow> real" where
  "to_double x = round_to 53 (- 1022) x"

definition to_float32 :: "real \<Rightarrow> real" where
  "to_float32 x = round_to 24 (- 126) x"

text \<open>
  \<^verbatim>\<open>float32[i] = pcm[i] / 0x7FFF\<close>: the quotient as a double, stored as a float.
\<close>

definition decode_sample :: "16 word \<Rightarrow> real" where
  "decode_sample w = to_float32 (to_double (real_of_int (sint w) / 0x7FFF))"

text \<open>
  \<^verbatim>\<open>new Int16Array(bytes.buffer)\<close>: pairs of bytes, low byte first; a buffer of odd
  length is refused with a RangeError.
\<close>

fun int16_view :: "8 word list \<Rightarrow> error + 16 word list" where
  "int16_view [] = Inr []"
| "int16_view [b] = Inl RangeError"
| "int16_view (lo # hi # rest) =
     (case int16_view rest of
        Inl err \<Rightarrow> Inl err
      | Inr ws \<Rightarrow> Inr ((push_bit 8 (ucast hi) + ucast lo) # ws))"

text \<open>The browser: base64 decoding, and the audio output from \<^verbatim>\<open>createBuffer\<close> to \<^verbatim>\<open>start\<close>.\<close>

record browser =
  atob :: "jsstring \<Rightarrow> error + 8 word list"
  play :: "real list \<Rightarrow> error option"

text \<open>\<^verbatim>\<open>message.serverContent?.modelTurn?.parts[0]\<close>: \<^verbatim>\<open>parts\<close> is indexed without \<^verbatim>\<open>?.\<close>\<close>

definition first_part :: "live_message \<Rightarrow> error + part option" where
  "first_part message =
     (case Option.bind (serverContent message) modelTurn of
        None \<Rightarrow> Inr None
      | Some turn \<Rightarrow>
          (case parts turn of
             None \<Rightarrow> Inl (TypeError ''0'')
           | Some ps \<Rightarrow> Inr (index ps 0)))"

text \<open>The first \<^verbatim>\<open>if\<close> of \<^verbatim>\<open>onmessage\<close>: the error thrown, if any.\<close>

definition onmessage_audio :: "browser \<Rightarrow> live_message \<Rightarrow> error option" where
  "onmessage_audio B message =
     (case first_part message of
        Inl err \<Rightarrow> Some err
      | Inr p \<Rightarrow>
          (let base64Audio = Option.bind (Option.bind p inlineData) data
           in if truthy base64Audio
              then (case atob B (the base64Audio) of
                      Inl err \<Rightarrow> Some err
                    | Inr bytes \<Rightarrow>
                        (case int16_view bytes of
                           Inl err \<Rightarrow> Some err
                         | Inr pcm \<Rightarrow> play B (map decode_sample pcm)))
              else None))"

text \<open>
  The second \<^verbatim>\<open>if\<close> of \<^verbatim>\<open>onmessage\<close>, with the updater
  \<^verbatim>\<open>prev => prev + ' ' + text\<close> applied to the transcript.
\<close>

definition onmessage_transcript :: "live_message \<Rightarrow> jsstring \<Rightarrow> error option \<times> jsstring" where
  "onmessage_transcript message prev =
     (case first_part message of
        Inl err \<Rightarrow> (Some err, prev)
      | Inr p \<Rightarrow>
          (if truthy (Option.bind p part_text)
           then (None, prev @ [space] @ the (Option.bind p part_text))
           else (None, prev)))"

text \<open>The handler: the error it throws, if any, and the transcript after it.\<close>

definition onmessage :: "browser \<Rightarrow> live_message \<Rightarrow> jsstring \<Rightarrow> error option \<times> jsstring" where
  "onmessage B message prev =
     (case onmessage_audio B message of
        Some err \<Rightarrow> (Some err, prev)
      | None \<Rightarrow> onmessage_transcript message prev)"

subsection \<open>Reading the log\<close>

fun is_status_check :: "call \<Rightarrow> bool" where
  "is_status_check (GetVideosOperation operation report) = True"
| "is_status_check c = False"

fun is_fetch :: "call \<Rightarrow> bool" where
  "is_fetch (Fetch url key) = True"
| "is_fetch c = False"

text \<open>A report after which the loop must not poll again: an error, or \<^verbatim>\<open>done\<close> set.\<close>

definition final :: "error + operation \<Rightarrow> bool" where
  "final report = (case report of Inl err \<Rightarrow> True | Inr operation \<Rightarrow> op_done operation = Some True)"

subsection \<open>Mock collaborators\<close>

definition pending :: operation where
  "pending = \<lparr>op_done = Some False, op_response = None\<rparr>"

definition finished :: "jsstring option \<Rightarrow> operation" where
  "finished u =
     \<lparr>op_done = Some True,
      op_response = Some \<lparr>generatedVideos = Some [\<lparr>video = Some \<lparr>uri = u\<rparr>\<rparr>]\<rparr>\<rparr>"

text \<open>
  A provider that answers every content request with \<open>resp\<close>, accepts a video job as
  pending and reports it done, with the link \<open>u\<close>, at the status check number \<open>k\<close>.
\<close>

definition mock :: "generate_content_response \<Rightarrow> nat \<Rightarrow> jsstring option \<Rightarrow> provider" where
  "mock resp k u =
     \<lparr>generateContent = (\<lambda>model contents cfg. Inr resp),
      sendMessage = (\<lambda>model message. Inr resp),
      generateVideos = (\<lambda>model prompt ratio. Inr pending),
      getVideosOperation = (\<lambda>n operation. if n < k then Inr pending else Inr (finished u)),
      fetch_blob = (\<lambda>url key. Inr []),
      createObjectURL = (\<lambda>b. js ''blob:video''),
      connect = (\<lambda>model. Inr 0)\<rparr>"

definition no_text :: generate_content_response where
  "no_text = \<lparr>response_text = None, candidates = None\<rparr>"

definition with_key :: env where
  "with_key = \<lparr>GEMINI_API_KEY = Some (js ''key'')\<rparr>"

definition without_key :: env where
  "without_key = \<lparr>GEMINI_API_KEY = None\<rparr>"

definition only_fences :: generate_content_response where
  "only_fences =
     \<lparr>response_text =
        Some ([backtick, backtick, backtick] @ js ''js'' @ [newline, space] @
              [backtick, backtick, backtick]),
      candidates = None\<rparr>"

definition fenced_answer :: generate_content_response where
  "fenced_answer =
     \<lparr>response_text =
        Some ([backtick, backtick, backtick] @ js ''js'' @ [newline] @ js ''x = 2'' @ [newline] @
              [backtick, backtick, backtick]),
      candidates = None\<rparr>"

definition video_link :: jsstring where
  "video_link = js ''https://video''"

text \<open>A browser whose base64 decoding yields the given bytes, and whose output plays.\<close>

definition browser_decoding :: "8 word list \<Rightarrow> browser" where
  "browser_decoding bytes = \<lparr>atob = (\<lambda>s. Inr bytes), play = (\<lambda>samples. None)\<rparr>"

definition quiet_browser :: browser where
  "quiet_browser = browser_decoding []"

definition text_message :: "jsstring \<Rightarrow> live_message" where
  "text_message t =
     \<lparr>serverContent =
        Some \<lparr>modelTurn = Some \<lparr>parts = Some [\<lparr>inlineData = None, part_text = Some t\<rparr>]\<rparr>\<rparr>\<rparr>"

text \<open>A message whose first part has both an audio payload and a text.\<close>

definition audio_text_message :: "jsstring \<Rightarrow> jsstring \<Rightarrow> live_message" where
  "audio_text_message payload t =
     \<lparr>serverContent =
        Some \<lparr>modelTurn =
          Some \<lparr>parts =
            Some [\<lparr>inlineData = Some \<lparr>data = Some payload, mimeType = Some (js ''audio/pcm'')\<rparr>,
                  part_text = Some t\<rparr>]\<rparr>\<rparr>\<rparr>"

definition content_without_parts :: generate_content_response where
  "content_without_parts =
     \<lparr>response_text = None,
      candidates = Some [\<lparr>candidate_content = Some \<lparr>parts = None\<rparr>, groundingMetadata = None\<rparr>]\<rparr>"

definition one_image :: "jsstring \<Rightarrow> generate_content_response" where
  "one_image payload =
     \<lparr>response_text = None,
      candidates =
        Some [\<lparr>candidate_content =
                 Some \<lparr>parts =
                   Some [\<lparr>inlineData = None, part_text = Some (js ''Here it is'')\<rparr>,
                         \<lparr>inlineData = Some \<lparr>data = Some payload, mimeType = Some (js ''image/png'')\<rparr>,
                          part_text = None\<rparr>]\<rparr>,
               groundingMetadata = None\<rparr>]\<rparr>"

subsection \<open>The specification's wording\<close>

text \<open>"The substring after the first comma", \<open>None\<close> when there is no comma.\<close>

definition after_first_comma :: "jsstring \<Rightarrow> jsstring option" where
  "after_first_comma s =
     (if comma \<in> set s then Some (tl (dropWhile (\<lambda>c. c \<noteq> comma) s)) else None)"

section \<open>Properties\<close>

subsection \<open>Credentials\<close>

text \<open>
  C3. With no API key in the environment (the variable unset, or set to the empty
  string), each of the six capabilities (editCode, chat, generateImage, generateVideo,
  analyzeImage, connectLive) fails with the MissingCredential error, and its log of
  outgoing calls is empty: nothing was sent to the provider, the timer or the network
  before the failure.
\<close>

theorem missing_credential_fails_first:
  assumes "GEMINI_API_KEY e = None \<or> GEMINI_API_KEY e = Some []"
  shows "editCode e P code instruction filename = ([], Inl MissingCredential) \<and>
         chat e P message = ([], Inl MissingCredential) \<and>
         generateImage e P image_prompt aspectRatio imageSize = ([], Inl MissingCredential) \<and>
         generateVideo fuel e P video_prompt ratio = ([], Some (Inl MissingCredential)) \<and>
         analyzeImage e P imageBuffer question = ([], Inl MissingCredential) \<and>
         connectLive e P = ([], Inl MissingCredential)"
proof -
  have "getAI e = Inl MissingCredential"
    using assms by (auto simp: getAI_def)
  then show ?thesis
    by (simp add: editCode_def chat_def generateImage_def generateVideo_def analyzeImage_def
        connectLive_def)
qed

theorem missing_credential_witness:
  "GEMINI_API_KEY without_key = None \<and>
   editCode without_key (mock no_text 0 None) (js ''x'') (js ''fix'') (js ''a.js'')
     = ([], Inl MissingCredential) \<and>
   chat without_key (mock no_text 0 None) (js ''hello'') = ([], Inl MissingCredential) \<and>
   generateImage without_key (mock no_text 0 None) (js ''a red circle'') None None
     = ([], Inl MissingCredential) \<and>
   generateVideo 5 without_key (mock no_text 0 None) (js ''a bear'') None
     = ([], Some (Inl MissingCredential)) \<and>
   analyzeImage without_key (mock no_text 0 None) (js ''data:,x'') (js ''what'')
     = ([], Inl MissingCredential) \<and>
   connectLive without_key (mock no_text 0 None) = ([], Inl MissingCredential)"
proof -
  have k: "GEMINI_API_KEY without_key = None"
    by (simp add: without_key_def)
  show ?thesis
    using k missing_credential_fails_first [OF disjI1 [OF k],
        where P = "mock no_text 0 None"
        and code = "js ''x''" and instruction = "js ''fix''" and filename = "js ''a.js''"
        and message = "js ''hello''" and image_prompt = "js ''a red circle''"
        and aspectRatio = None and imageSize = None and fuel = 5
        and video_prompt = "js ''a bear''" and ratio = None
        and imageBuffer = "js ''data:,x''" and question = "js ''what''"]
    by simp
qed

subsection \<open>editCode\<close>

lemma getAI_with_key: "getAI with_key = Inr (GoogleGenAI (js ''key''))"
  by (simp add: getAI_def with_key_def js_def)

text \<open>What the regular expression leaves has no three backticks in a row.\<close>

lemma replace_fences_keeps_other:
  "x \<noteq> backtick \<Longrightarrow> replace_fences (x # xs) = x # replace_fences xs"
  by (cases xs rule: replace_fences.cases) auto

lemma replace_fences_keeps_pair:
  "y \<noteq> backtick \<Longrightarrow> replace_fences (x # y # xs) = x # y # replace_fences xs"
  by (cases xs) (auto simp: replace_fences_keeps_other)

lemma contains_fence_Cons:
  "contains_fence (a # s) \<longleftrightarrow>
     (\<exists>r. s = backtick # backtick # r \<and> a = backtick) \<or> contains_fence s"
  by (cases s rule: contains_fence.cases) auto

lemma replace_fences_no_fence: "\<not> contains_fence (replace_fences s)"
proof (induction s rule: replace_fences.induct)
  case (1 a b c rest)
  show ?case
  proof (cases "a = backtick \<and> b = backtick \<and> c = backtick")
    case True
    with 1 show ?thesis by simp
  next
    case False
    then have ih: "\<not> contains_fence (replace_fences (b # c # rest))" using 1 by simp
    show ?thesis
    proof (cases "a = backtick")
      case na: False
      then show ?thesis using ih False by (simp add: contains_fence_Cons)
    next
      case ta: True
      show ?thesis
      proof (cases "b = backtick")
        case False
        then show ?thesis using ih ta by (simp add: contains_fence_Cons replace_fences_keeps_other)
      next
        case True
        then have c: "c \<noteq> backtick" using False ta by simp
        have eq: "replace_fences (b # c # rest) = b # c # replace_fences rest"
          using c by (rule replace_fences_keeps_pair)
        have "replace_fences (a # b # c # rest) = a # b # c # replace_fences rest"
          using c eq by simp
        moreover have "\<not> contains_fence (b # c # replace_fences rest)"
          using ih eq by simp
        ultimately show ?thesis using c by simp
      qed
    qed
  qed
qed simp_all

lemma contains_fence_sublist:
  "contains_fence s \<longleftrightarrow> sublist [backtick, backtick, backtick] s"
proof (induction s rule: contains_fence.induct)
  case (1 a b c rest)
  then show ?case by (auto simp: sublist_Cons_right [of _ a])
qed (simp_all add: sublist_Cons_right)

lemma sublist_trim: "sublist (trim s) s"
proof -
  have "suffix (dropWhile is_white_space (rev (dropWhile is_white_space s)))
          (rev (dropWhile is_white_space s))"
    by (rule suffix_dropWhile)
  then have "prefix (trim s) (dropWhile is_white_space s)"
    by (simp add: suffix_to_prefix trim_def)
  then have "sublist (trim s) (dropWhile is_white_space s)" by (rule prefix_imp_sublist)
  moreover have "sublist (dropWhile is_white_space s) s" by (rule sublist_dropWhile)
  ultimately show ?thesis by (rule sublist_order.order.trans)
qed

lemma trim_no_fence: "\<not> contains_fence s \<Longrightarrow> \<not> contains_fence (trim s)"
  using sublist_trim [of s] sublist_order.order.trans unfolding contains_fence_sublist by blast

lemma strip_fences_no_fence: "strip_fences t = Some r \<Longrightarrow> \<not> contains_fence r"
  by (auto simp: strip_fences_def trim_no_fence replace_fences_no_fence)

text \<open>
  C1 as stated fails: with no response text the code argument comes back as it is, and it
  may hold a fence marker. Here the code argument is three backticks.
\<close>

theorem editCode_fence_counterexample:
  "snd (editCode with_key (mock no_text 0 None) [backtick, backtick, backtick] (js ''fix'') (js ''a.md''))
     = Inr [backtick, backtick, backtick] \<and>
   contains_fence [backtick, backtick, backtick]"
  by (simp add: editCode_def getAI_with_key mock_def no_text_def strip_fences_def truthy_def)

text \<open>
  C1, amended. Whenever editCode returns a string, the provider answered, and the string
  is the response text with its fences removed and its ends trimmed when that is not
  empty, and it then holds no fence marker; otherwise it is the code argument, as it was
  passed in.
\<close>

theorem editCode_result_unfenced_or_code:
  assumes "snd (editCode e P code instruction filename) = Inr r"
  shows "\<exists>resp. generateContent P ''gemini-3.1-pro-preview''
                  [Text (edit_prompt code instruction filename)] (Temperature (2 / 10)) = Inr resp \<and>
           (if truthy (strip_fences (response_text resp))
            then strip_fences (response_text resp) = Some r \<and> \<not> contains_fence r
            else r = code)"
proof -
  obtain ai where "getAI e = Inr ai"
    using assms by (cases "getAI e") (auto simp: editCode_def)
  moreover obtain resp where resp: "generateContent P ''gemini-3.1-pro-preview''
       [Text (edit_prompt code instruction filename)] (Temperature (2 / 10)) = Inr resp"
    using assms calculation
    by (cases "generateContent P ''gemini-3.1-pro-preview''
       [Text (edit_prompt code instruction filename)] (Temperature (2 / 10))") (auto simp: editCode_def Let_def)
  ultimately have r: "r = (if truthy (strip_fences (response_text resp))
                           then the (strip_fences (response_text resp)) else code)"
    using assms by (simp add: editCode_def Let_def)
  show ?thesis
  proof (cases "truthy (strip_fences (response_text resp))")
    case True
    then obtain t where t: "strip_fences (response_text resp) = Some t"
      by (auto simp: truthy_def split: option.splits)
    then show ?thesis using True r resp strip_fences_no_fence [OF t] by auto
  next
    case False
    then show ?thesis using r resp by auto
  qed
qed

lemma editCode_fenced_answer:
  "snd (editCode with_key (mock fenced_answer 0 None) (js ''x = 1'') (js ''fix'') (js ''a.js''))
     = Inr (js ''x = 2'')"
  by (simp add: editCode_def getAI_with_key mock_def fenced_answer_def strip_fences_def truthy_def
      trim_def js_def backtick_def newline_def is_letter_def is_white_space_def)

theorem editCode_result_witness:
  "generateContent (mock fenced_answer 0 None) ''gemini-3.1-pro-preview''
     [Text (edit_prompt (js ''x = 1'') (js ''fix'') (js ''a.js''))] (Temperature (2 / 10)) = Inr fenced_answer \<and>
   strip_fences (response_text fenced_answer) = Some (js ''x = 2'') \<and>
   \<not> contains_fence (js ''x = 2'')"
  using editCode_result_unfenced_or_code [OF editCode_fenced_answer]
  by (simp add: mock_def fenced_answer_def strip_fences_def truthy_def
      trim_def js_def backtick_def newline_def is_letter_def is_white_space_def)

text \<open>
  C8. Whatever the code argument is: when the provider's response has no text, or has a
  text that is empty once the fences are removed and the ends are trimmed (the empty
  text among them), editCode returns the code argument unchanged.
\<close>

theorem editCode_empty_response_keeps_code:
  assumes "getAI e = Inr ai"
    and "generateContent P ''gemini-3.1-pro-preview''
           [Text (edit_prompt code instruction filename)] (Temperature (2 / 10)) = Inr resp"
    and "response_text resp = None \<or>
         (\<exists>s. response_text resp = Some s \<and> trim (replace_fences s) = [])"
  shows "snd (editCode e P code instruction filename) = Inr code"
  using assms by (auto simp: editCode_def strip_fences_def truthy_def Let_def)

lemma only_fences_strips_to_nothing:
  "\<exists>s. response_text only_fences = Some s \<and> trim (replace_fences s) = []"
  by (simp add: only_fences_def trim_def js_def backtick_def newline_def space_def
      is_letter_def is_white_space_def)

theorem editCode_empty_response_witness:
  "snd (editCode with_key (mock no_text 0 None) (js ''x = 1'') (js ''fix'') (js ''a.js''))
     = Inr (js ''x = 1'') \<and>
   snd (editCode with_key (mock only_fences 0 None) (js ''x = 1'') (js ''fix'') (js ''a.js''))
     = Inr (js ''x = 1'')"
proof -
  have a: "generateContent (mock no_text 0 None) ''gemini-3.1-pro-preview''
             [Text (edit_prompt (js ''x = 1'') (js ''fix'') (js ''a.js''))] (Temperature (2 / 10))
           = Inr no_text"
    by (simp add: mock_def)
  have b: "generateContent (mock only_fences 0 None) ''gemini-3.1-pro-preview''
             [Text (edit_prompt (js ''x = 1'') (js ''fix'') (js ''a.js''))] (Temperature (2 / 10))
           = Inr only_fences"
    by (simp add: mock_def)
  have c: "response_text no_text = None"
    by (simp add: no_text_def)
  show ?thesis
    using editCode_empty_response_keeps_code [OF getAI_with_key a disjI1 [OF c]]
      editCode_empty_response_keeps_code
        [OF getAI_with_key b disjI2 [OF only_fences_strips_to_nothing]]
    by simp
qed

subsection \<open>analyzeImage\<close>

lemma split_first: "\<exists>ws. split sep s = takeWhile (\<lambda>c. c \<noteq> sep) s # ws"
  by (induction s) auto

lemma index_simps:
  "index [] n = None" "index (x # xs) 0 = Some x" "index (x # xs) (Suc n) = index xs n"
  by (simp_all add: index_def)

lemma split_second:
  "index (split comma s) (Suc 0) = map_option (takeWhile (\<lambda>c. c \<noteq> comma)) (after_first_comma s)"
proof (induction s)
  case Nil
  then show ?case by (simp add: index_simps after_first_comma_def)
next
  case (Cons c cs)
  obtain ws where ws: "split comma cs = takeWhile (\<lambda>c. c \<noteq> comma) cs # ws"
    using split_first by blast
  show ?case
  proof (cases "c = comma")
    case True
    then show ?thesis using ws by (simp add: index_simps after_first_comma_def)
  next
    case False
    then show ?thesis using ws Cons.IH by (simp add: index_simps after_first_comma_def)
  qed
qed

text \<open>
  C10 as stated fails: the payload is the second piece of the split, not everything after
  the first comma. For the input \<^verbatim>\<open>a,b,c\<close> the provider is sent \<^verbatim>\<open>b\<close>, and the substring
  after the first comma is \<^verbatim>\<open>b,c\<close>.
\<close>

theorem analyzeImage_payload_counterexample:
  "fst (analyzeImage with_key (mock no_text 0 None) (js ''a,b,c'') (js ''what''))
     = [GenerateContent ''gemini-3.1-pro-preview''
          [InlineData (Some (js ''b'')) ''image/png'', Text (js ''what'')] NoConfig] \<and>
   after_first_comma (js ''a,b,c'') = Some (js ''b,c'') \<and>
   js ''b'' \<noteq> js ''b,c''"
  by (simp add: analyzeImage_def getAI_with_key after_first_comma_def index_simps js_def comma_def
      Let_def)

text \<open>
  C10, amended. analyzeImage splits its input at commas and sends, as the image payload,
  the second piece: the substring after the first comma, up to the next comma or to the
  end (so all of it when the input has one comma). For an input with no comma the
  request goes out with the payload absent, and the call returns what the provider
  answers: no validation error is raised.
\<close>

theorem analyzeImage_sends_second_piece:
  assumes "getAI e = Inr ai"
  shows "fst (analyzeImage e P imageBuffer prompt) =
           [GenerateContent ''gemini-3.1-pro-preview''
              [InlineData (map_option (takeWhile (\<lambda>c. c \<noteq> comma)) (after_first_comma imageBuffer))
                 ''image/png'', Text prompt] NoConfig] \<and>
         (comma \<notin> set imageBuffer \<longrightarrow>
            analyzeImage e P imageBuffer prompt =
              ([GenerateContent ''gemini-3.1-pro-preview'' [InlineData None ''image/png'', Text prompt] NoConfig],
               map_sum id response_text
                 (generateContent P ''gemini-3.1-pro-preview''
                    [InlineData None ''image/png'', Text prompt] NoConfig)))"
proof -
  have "comma \<notin> set imageBuffer \<Longrightarrow> after_first_comma imageBuffer = None"
    by (simp add: after_first_comma_def)
  then show ?thesis
    using assms by (auto simp: analyzeImage_def Let_def split_second split: sum.splits)
qed

theorem analyzeImage_witness:
  "fst (analyzeImage with_key (mock no_text 0 None) (js ''data:image/png;base64,AAAA'') (js ''what''))
     = [GenerateContent ''gemini-3.1-pro-preview''
          [InlineData (Some (js ''AAAA'')) ''image/png'', Text (js ''what'')] NoConfig] \<and>
   analyzeImage with_key (mock no_text 0 None) (js ''AAAA'') (js ''what'')
     = ([GenerateContent ''gemini-3.1-pro-preview''
          [InlineData None ''image/png'', Text (js ''what'')] NoConfig], Inr None)"
  using analyzeImage_sends_second_piece [OF getAI_with_key, of "mock no_text 0 None" "js ''data:image/png;base64,AAAA''" "js ''what''"]
    analyzeImage_sends_second_piece [OF getAI_with_key, of "mock no_text 0 None" "js ''AAAA''" "js ''what''"]
  by (simp add: after_first_comma_def js_def comma_def mock_def no_text_def)

subsection \<open>generateVideo\<close>

text \<open>The loop, one round at a time.\<close>

lemma poll_done:
  "op_done operation = Some True \<Longrightarrow> poll fuel P n operation = ([], Some (Inr operation))"
  by (cases fuel) simp_all

lemma poll_unfold:
  "op_done operation \<noteq> Some True \<Longrightarrow>
   fst (poll (Suc fuel) P n operation) =
     SetTimeout 5000 # GetVideosOperation operation (getVideosOperation P n operation) #
       (case getVideosOperation P n operation of
          Inl err \<Rightarrow> []
        | Inr operation' \<Rightarrow> fst (poll fuel P (Suc n) operation'))"
  by (simp add: Let_def split: sum.splits prod.splits)

lemma poll_result_done:
  "poll fuel P n operation = (calls, Some (Inr finished_op)) \<Longrightarrow> op_done finished_op = Some True"
  by (induction fuel arbitrary: n operation calls)
    (auto simp: Let_def split: if_splits sum.splits prod.splits)

lemma poll_no_fetch: "c \<in> set (fst (poll fuel P n operation)) \<Longrightarrow> \<not> is_fetch c"
proof (induction fuel arbitrary: n operation)
  case 0
  then show ?case by (simp split: if_splits)
next
  case (Suc fuel)
  show ?case
  proof (cases "op_done operation = Some True")
    case True
    then show ?thesis using Suc.prems by (simp add: poll_done)
  next
    case False
    then show ?thesis
      using Suc.prems Suc.IH unfolding poll_unfold [OF False]
      by (cases "getVideosOperation P n operation") auto
  qed
qed

lemma poll_status_checks:
  assumes "fst (poll fuel P n operation) = pre @ GetVideosOperation polled report # post"
  shows "op_done polled \<noteq> Some True \<and>
         (final report \<longrightarrow> post = []) \<and>
         (pre = [SetTimeout 5000] \<longrightarrow> polled = operation) \<and>
         (\<forall>pre' before answer. pre = pre' @ [GetVideosOperation before answer, SetTimeout 5000]
            \<longrightarrow> answer = Inr polled)"
  using assms
proof (induction fuel arbitrary: n operation pre)
  case 0
  then show ?case by (simp split: if_splits)
next
  case (Suc fuel)
  show ?case
  proof (cases "op_done operation = Some True")
    case True
    then show ?thesis using Suc.prems by (simp add: poll_done)
  next
    case False
    let ?r = "getVideosOperation P n operation"
    let ?rest = "case ?r of Inl err \<Rightarrow> [] | Inr operation' \<Rightarrow> fst (poll fuel P (Suc n) operation')"
    have eq: "SetTimeout 5000 # GetVideosOperation operation ?r # ?rest
                = pre @ GetVideosOperation polled report # post"
      using Suc.prems poll_unfold [OF False] by simp
    then obtain pre1 where pre1: "pre = SetTimeout 5000 # pre1"
      and eq1: "GetVideosOperation operation ?r # ?rest = pre1 @ GetVideosOperation polled report # post"
      by (cases pre) auto
    show ?thesis
    proof (cases pre1)
      case Nil
      then have h: "polled = operation" "report = ?r" "post = ?rest" using eq1 by auto
      have "final report \<Longrightarrow> post = []"
        using h by (auto simp: final_def poll_done split: sum.splits)
      then show ?thesis using h False pre1 Nil by auto
    next
      case (Cons c pre2)
      then have c: "c = GetVideosOperation operation ?r"
        and eq2: "?rest = pre2 @ GetVideosOperation polled report # post"
        using eq1 by auto
      then obtain operation' where r: "?r = Inr operation'"
        and eq3: "fst (poll fuel P (Suc n) operation') = pre2 @ GetVideosOperation polled report # post"
        by (cases ?r) auto
      note ih = Suc.IH [OF eq3]
      have "answer = Inr polled"
        if ends: "pre = pre' @ [GetVideosOperation before answer, SetTimeout 5000]"
        for pre' before answer
      proof (cases "pre2 = [SetTimeout 5000]")
        case True
        then have "pre = [SetTimeout 5000, GetVideosOperation operation ?r, SetTimeout 5000]"
          using pre1 Cons c by simp
        then have "answer = ?r" using ends by (cases pre'; simp)
        then show ?thesis using ih True r by simp
      next
        case False
        obtain x p1 where p: "pre' = x # p1"
          using ends pre1 Cons by (cases pre') auto
        obtain y p2 where q: "p1 = y # p2"
          using ends pre1 Cons p False by (cases p1) auto
        have "pre2 = p2 @ [GetVideosOperation before answer, SetTimeout 5000]"
          using ends pre1 Cons p q by simp
        then show ?thesis using ih by blast
      qed
      then show ?thesis using ih pre1 Cons by auto
    qed
  qed
qed


lemma generateVideo_log:
  "fst (generateVideo fuel e P prompt aspectRatio) = [] \<or>
   (\<exists>err. generateVideos P ''veo-3.1-fast-generate-preview'' prompt
            (case aspectRatio of None \<Rightarrow> Wide | Some a \<Rightarrow> a) = Inl err \<and>
      fst (generateVideo fuel e P prompt aspectRatio) =
        [GenerateVideos ''veo-3.1-fast-generate-preview'' prompt
           (case aspectRatio of None \<Rightarrow> Wide | Some a \<Rightarrow> a)]) \<or>
   (\<exists>submitted tail.
      generateVideos P ''veo-3.1-fast-generate-preview'' prompt
        (case aspectRatio of None \<Rightarrow> Wide | Some a \<Rightarrow> a) = Inr submitted \<and>
      fst (generateVideo fuel e P prompt aspectRatio) =
        GenerateVideos ''veo-3.1-fast-generate-preview'' prompt
          (case aspectRatio of None \<Rightarrow> Wide | Some a \<Rightarrow> a) #
        fst (poll fuel P 0 submitted) @ tail \<and>
      (tail = [] \<or> (\<exists>url key. tail = [Fetch url key])))"
  by (auto simp: generateVideo_def Let_def split: sum.splits option.splits prod.splits)

lemma split_before_tail:
  assumes "xs @ tail = pre @ GetVideosOperation polled report # post"
    and "tail = [] \<or> (\<exists>url key. tail = [Fetch url key])"
  shows "\<exists>post'. xs = pre @ GetVideosOperation polled report # post' \<and> post = post' @ tail"
proof (cases "tail = []")
  case True
  then show ?thesis using assms by simp
next
  case False
  then obtain url key where t: "tail = [Fetch url key]" using assms(2) by blast
  have "post \<noteq> []"
    using assms(1) t by (cases post rule: rev_cases) auto
  then obtain post' z where p: "post = post' @ [z]" by (cases post rule: rev_cases) auto
  then have "xs @ [Fetch url key] = (pre @ GetVideosOperation polled report # post') @ [z]"
    using assms(1) t by simp
  then have "xs = pre @ GetVideosOperation polled report # post'" "z = Fetch url key"
    by (simp_all only: append1_eq_conv)
  then show ?thesis using p t by simp
qed

lemma mock_run:
  "generateVideo 5 with_key (mock no_text 2 (Some video_link)) (js ''a bear'') None =
     ([GenerateVideos ''veo-3.1-fast-generate-preview'' (js ''a bear'') Wide,
       SetTimeout 5000, GetVideosOperation pending (Inr pending),
       SetTimeout 5000, GetVideosOperation pending (Inr pending),
       SetTimeout 5000, GetVideosOperation pending (Inr (finished (Some video_link))),
       Fetch video_link (Some (js ''key''))],
      Some (Inr (js ''blob:video'')))"
  by code_simp

text \<open>
  C7. Take any status check in the log of generateVideo, whatever the fuel, so in every
  finite stretch of a run that may never end. The operation it was issued for is not
  done. That operation is the last report: the submitted job for the first check, the
  answer to the check before it for every later one. And when the report it received is
  final (an error, or \<^verbatim>\<open>done\<close> set), no status check follows it in the log.
\<close>

theorem polling_only_while_pending:
  assumes "fst (generateVideo fuel e P prompt aspectRatio) =
             pre @ GetVideosOperation polled report # post"
  shows "op_done polled \<noteq> Some True \<and>
         (final report \<longrightarrow> \<not> (\<exists>c \<in> set post. is_status_check c)) \<and>
         (pre = [GenerateVideos ''veo-3.1-fast-generate-preview'' prompt
                   (case aspectRatio of None \<Rightarrow> Wide | Some a \<Rightarrow> a), SetTimeout 5000] \<longrightarrow>
            generateVideos P ''veo-3.1-fast-generate-preview'' prompt
              (case aspectRatio of None \<Rightarrow> Wide | Some a \<Rightarrow> a) = Inr polled) \<and>
         (\<forall>pre' before answer.
            pre = pre' @ [GetVideosOperation before answer, SetTimeout 5000] \<longrightarrow>
            answer = Inr polled)"
proof -
  let ?submit = "GenerateVideos ''veo-3.1-fast-generate-preview'' prompt
                   (case aspectRatio of None \<Rightarrow> Wide | Some a \<Rightarrow> a)"
  have no_a: "fst (generateVideo fuel e P prompt aspectRatio) \<noteq> []"
    using assms by simp
  have no_b: "fst (generateVideo fuel e P prompt aspectRatio) \<noteq> [?submit]"
    using assms by (cases pre) auto
  from generateVideo_log [of fuel e P prompt aspectRatio] no_a no_b
  obtain submitted tail where
    sub: "generateVideos P ''veo-3.1-fast-generate-preview'' prompt
            (case aspectRatio of None \<Rightarrow> Wide | Some a \<Rightarrow> a) = Inr submitted"
    and lg0: "fst (generateVideo fuel e P prompt aspectRatio) =
               ?submit # fst (poll fuel P 0 submitted) @ tail"
    and tl: "tail = [] \<or> (\<exists>url key. tail = [Fetch url key])"
    by blast
  have lg: "?submit # fst (poll fuel P 0 submitted) @ tail =
               pre @ GetVideosOperation polled report # post"
    using lg0 assms by simp
  from lg obtain pre1 where pre: "pre = ?submit # pre1"
    and lg1: "fst (poll fuel P 0 submitted) @ tail = pre1 @ GetVideosOperation polled report # post"
    by (cases pre) auto
  from split_before_tail [OF lg1 tl] obtain post' where
    pl: "fst (poll fuel P 0 submitted) = pre1 @ GetVideosOperation polled report # post'"
    and post: "post = post' @ tail"
    by blast
  note inv = poll_status_checks [OF pl]
  have a: "op_done polled \<noteq> Some True" using inv by simp
  have b: "\<not> (\<exists>c \<in> set post. is_status_check c)" if "final report"
    using inv that post tl by auto
  have c: "generateVideos P ''veo-3.1-fast-generate-preview'' prompt
              (case aspectRatio of None \<Rightarrow> Wide | Some a \<Rightarrow> a) = Inr polled"
    if "pre = [?submit, SetTimeout 5000]"
    using inv that pre sub by simp
  have d: "answer = Inr polled"
    if ends: "pre = pre' @ [GetVideosOperation before answer, SetTimeout 5000]"
    for pre' before answer
  proof -
    obtain x p1 where "pre' = x # p1" using ends pre by (cases pre') auto
    then have "pre1 = p1 @ [GetVideosOperation before answer, SetTimeout 5000]"
      using ends pre by simp
    then show ?thesis using inv by blast
  qed
  show ?thesis using a b c d by blast
qed


theorem polling_witness:
  "fst (generateVideo 5 with_key (mock no_text 2 (Some video_link)) (js ''a bear'') None) =
     [GenerateVideos ''veo-3.1-fast-generate-preview'' (js ''a bear'') Wide,
       SetTimeout 5000, GetVideosOperation pending (Inr pending),
       SetTimeout 5000, GetVideosOperation pending (Inr pending),
       SetTimeout 5000] @
     GetVideosOperation pending (Inr (finished (Some video_link))) #
     [Fetch video_link (Some (js ''key''))] \<and>
   op_done pending \<noteq> Some True \<and>
   final (Inr (finished (Some video_link))) \<and>
   \<not> (\<exists>c \<in> set [Fetch video_link (Some (js ''key''))]. is_status_check c)"
proof -
  have run: "fst (generateVideo 5 with_key (mock no_text 2 (Some video_link)) (js ''a bear'') None) =
     [GenerateVideos ''veo-3.1-fast-generate-preview'' (js ''a bear'') Wide,
       SetTimeout 5000, GetVideosOperation pending (Inr pending),
       SetTimeout 5000, GetVideosOperation pending (Inr pending),
       SetTimeout 5000] @
     GetVideosOperation pending (Inr (finished (Some video_link))) #
     [Fetch video_link (Some (js ''key''))]"
    by (simp add: mock_run)
  have fin: "final (Inr (finished (Some video_link)))"
    by (simp add: final_def finished_def)
  from polling_only_while_pending [OF run] fin run
  show ?thesis by blast
qed


text \<open>
  C2. The three reports are the answers to the status checks: the job comes back from
  the submission not done, the first two checks report it not done, the third reports
  it done with a link. With fuel for three rounds or more, generateVideo issues exactly
  three status checks, each right after a timer of 5000 ms, then fetches the link and
  resolves with the object URL of the blob.
\<close>

theorem three_status_checks:
  assumes "getAI e = Inr ai"
    and "generateVideos P ''veo-3.1-fast-generate-preview'' prompt
           (case aspectRatio of None \<Rightarrow> Wide | Some a \<Rightarrow> a) = Inr submitted"
    and "op_done submitted \<noteq> Some True"
    and "getVideosOperation P 0 submitted = Inr first_report"
    and "op_done first_report \<noteq> Some True"
    and "getVideosOperation P 1 first_report = Inr second_report"
    and "op_done second_report \<noteq> Some True"
    and "getVideosOperation P 2 second_report = Inr third_report"
    and "op_done third_report = Some True"
    and "downloadLink third_report = Some url" and "url \<noteq> []"
    and "fetch_blob P url (GEMINI_API_KEY e) = Inr b"
    and "3 \<le> fuel"
  shows "generateVideo fuel e P prompt aspectRatio =
           ([GenerateVideos ''veo-3.1-fast-generate-preview'' prompt
               (case aspectRatio of None \<Rightarrow> Wide | Some a \<Rightarrow> a),
             SetTimeout 5000, GetVideosOperation submitted (Inr first_report),
             SetTimeout 5000, GetVideosOperation first_report (Inr second_report),
             SetTimeout 5000, GetVideosOperation second_report (Inr third_report),
             Fetch url (GEMINI_API_KEY e)],
            Some (Inr (createObjectURL P b))) \<and>
         length (filter is_status_check (fst (generateVideo fuel e P prompt aspectRatio))) = 3"
proof -
  obtain k where fuel: "fuel = Suc (Suc (Suc k))"
    using \<open>3 \<le> fuel\<close> by (metis add_Suc_right add_Suc le_Suc_ex numeral_3_eq_3 plus_nat.add_0)
  have three: "poll k P (Suc (Suc (Suc 0))) third_report = ([], Some (Inr third_report))"
    using assms(9) by (rule poll_done)
  have p: "poll fuel P 0 submitted =
          ([SetTimeout 5000, GetVideosOperation submitted (Inr first_report),
            SetTimeout 5000, GetVideosOperation first_report (Inr second_report),
            SetTimeout 5000, GetVideosOperation second_report (Inr third_report)],
           Some (Inr third_report))"
    using assms(3-9) three unfolding fuel
    by (simp add: numeral_2_eq_2 Let_def)
  show ?thesis
    using assms(1,2,10,11,12) p by (simp add: generateVideo_def truthy_def)
qed

theorem three_status_checks_witness:
  "generateVideo 5 with_key (mock no_text 2 (Some video_link)) (js ''a bear'') None =
     ([GenerateVideos ''veo-3.1-fast-generate-preview'' (js ''a bear'') Wide,
       SetTimeout 5000, GetVideosOperation pending (Inr pending),
       SetTimeout 5000, GetVideosOperation pending (Inr pending),
       SetTimeout 5000, GetVideosOperation pending (Inr (finished (Some video_link))),
       Fetch video_link (Some (js ''key''))],
      Some (Inr (js ''blob:video''))) \<and>
   length (filter is_status_check
     (fst (generateVideo 5 with_key (mock no_text 2 (Some video_link)) (js ''a bear'') None))) = 3"
proof -
  let ?P = "mock no_text 2 (Some video_link)"
  have "generateVideos ?P ''veo-3.1-fast-generate-preview'' (js ''a bear'')
          (case None of None \<Rightarrow> Wide | Some a \<Rightarrow> a) = Inr pending"
    and "op_done pending \<noteq> Some True"
    and "getVideosOperation ?P 0 pending = Inr pending"
    and "getVideosOperation ?P 1 pending = Inr pending"
    and "getVideosOperation ?P 2 pending = Inr (finished (Some video_link))"
    and "op_done (finished (Some video_link)) = Some True"
    and "downloadLink (finished (Some video_link)) = Some video_link"
    and "video_link \<noteq> []"
    and "fetch_blob ?P video_link (GEMINI_API_KEY with_key) = Inr []"
    and "(3::nat) \<le> 5"
    by (simp_all add: mock_def pending_def finished_def downloadLink_def first_def index_def
        video_link_def js_def)
  from three_status_checks [OF getAI_with_key this(1,2,3,2,4,2,5,6,7,8,9,10)]
  show ?thesis by (simp add: mock_def with_key_def)
qed

text \<open>
  C4. When the loop ends on a report (it then has \<^verbatim>\<open>done\<close> set) whose download link is
  absent or empty, generateVideo fails with the GenerationFailed error; its log is the
  submission and the calls of the loop, and holds no fetch.
\<close>

theorem done_without_link_fails:
  assumes "getAI e = Inr ai"
    and "generateVideos P ''veo-3.1-fast-generate-preview'' prompt
           (case aspectRatio of None \<Rightarrow> Wide | Some a \<Rightarrow> a) = Inr submitted"
    and "poll fuel P 0 submitted = (calls, Some (Inr last_report))"
    and "\<not> truthy (downloadLink last_report)"
  shows "op_done last_report = Some True \<and>
         generateVideo fuel e P prompt aspectRatio =
           (GenerateVideos ''veo-3.1-fast-generate-preview'' prompt
              (case aspectRatio of None \<Rightarrow> Wide | Some a \<Rightarrow> a) # calls,
            Some (Inl GenerationFailed)) \<and>
         \<not> (\<exists>c \<in> set (fst (generateVideo fuel e P prompt aspectRatio)). is_fetch c)"
proof -
  have "op_done last_report = Some True"
    using assms(3) by (rule poll_result_done)
  moreover have g: "generateVideo fuel e P prompt aspectRatio =
           (GenerateVideos ''veo-3.1-fast-generate-preview'' prompt
              (case aspectRatio of None \<Rightarrow> Wide | Some a \<Rightarrow> a) # calls,
            Some (Inl GenerationFailed))"
    using assms by (simp add: generateVideo_def)
  moreover have "\<not> is_fetch c" if "c \<in> set calls" for c
    using poll_no_fetch [of c fuel P 0 submitted] that assms(3) by simp
  ultimately show ?thesis by auto
qed

theorem done_without_link_witness:
  "generateVideo 5 with_key (mock no_text 1 None) (js ''a bear'') None =
     ([GenerateVideos ''veo-3.1-fast-generate-preview'' (js ''a bear'') Wide,
       SetTimeout 5000, GetVideosOperation pending (Inr pending),
       SetTimeout 5000, GetVideosOperation pending (Inr (finished None))],
      Some (Inl GenerationFailed)) \<and>
   op_done (finished None) = Some True \<and>
   \<not> (\<exists>c \<in> set (fst (generateVideo 5 with_key (mock no_text 1 None) (js ''a bear'') None)).
        is_fetch c)"
proof -
  let ?P = "mock no_text 1 None"
  have a: "generateVideos ?P ''veo-3.1-fast-generate-preview'' (js ''a bear'')
          (case None of None \<Rightarrow> Wide | Some a \<Rightarrow> a) = Inr pending"
    by (simp add: mock_def)
  have b: "poll 5 ?P 0 pending =
             ([SetTimeout 5000, GetVideosOperation pending (Inr pending),
               SetTimeout 5000, GetVideosOperation pending (Inr (finished None))],
              Some (Inr (finished None)))"
    by code_simp
  have c: "\<not> truthy (downloadLink (finished None))"
    by (simp add: finished_def downloadLink_def first_def index_def truthy_def)
  from done_without_link_fails [OF getAI_with_key a b c]
  show ?thesis by simp
qed

subsection \<open>generateImage\<close>

text \<open>
  With an image part in the first candidate, the result is the prefix
  \<^verbatim>\<open>data:image/png;base64,\<close> followed by the payload as the provider sent it; with
  a response that has no candidate, no content, or parts none of which has inline data,
  the call fails with the NoResultProduced error.
\<close>

lemma generateImage_returns_data_uri:
  assumes "getAI e = Inr ai"
    and "generateContent P ''gemini-3-pro-image-preview'' [Text prompt]
           (ImageConfig (case aspectRatio of None \<Rightarrow> js ''1:1'' | Some a \<Rightarrow> a)
                        (case imageSize of None \<Rightarrow> js ''1K'' | Some z \<Rightarrow> z)) = Inr resp"
    and "find_image_part resp = Inr (Some p)"
    and "inlineData p = Some d" and "data d = Some payload"
  shows "snd (generateImage e P prompt aspectRatio imageSize) =
           Inr (js ''data:image/png;base64,'' @ payload)"
  using assms by (simp add: generateImage_def interpolate_def)

lemma generateImage_no_image_part:
  assumes "getAI e = Inr ai"
    and "generateContent P ''gemini-3-pro-image-preview'' [Text prompt]
           (ImageConfig (case aspectRatio of None \<Rightarrow> js ''1:1'' | Some a \<Rightarrow> a)
                        (case imageSize of None \<Rightarrow> js ''1K'' | Some z \<Rightarrow> z)) = Inr resp"
    and "find_image_part resp = Inr None \<or>
         (\<exists>p. find_image_part resp = Inr (Some p) \<and> inlineData p = None)"
  shows "snd (generateImage e P prompt aspectRatio imageSize) = Inl NoResultProduced"
  using assms by (auto simp: generateImage_def)

lemma find_image_part_Some:
  "find_image_part resp = Inr (Some p) \<Longrightarrow> inlineData p \<noteq> None"
  by (auto simp: find_image_part_def find_Some_iff split: option.splits)

lemma generateImage_one_image:
  "snd (generateImage with_key (mock (one_image (js ''iVBORw0KGgo='')) 0 None) (js ''a red circle'')
          (Some (js ''1:1'')) (Some (js ''1K''))) = Inr (js ''data:image/png;base64,iVBORw0KGgo='')"
  by (simp add: generateImage_def getAI_with_key mock_def one_image_def find_image_part_def
      first_def index_def interpolate_def js_def)

text \<open>
  C5 at a response whose first candidate has a content with no \<^verbatim>\<open>parts\<close>: there is no
  image part, and generateImage fails, after its one provider call, with the TypeError
  of \<^verbatim>\<open>find\<close> read on \<^verbatim>\<open>undefined\<close>, which is not the NoResultProduced error.
\<close>

theorem generateImage_content_without_parts:
  "generateImage with_key (mock content_without_parts 0 None) (js ''a red circle'') None None =
     ([GenerateContent ''gemini-3-pro-image-preview'' [Text (js ''a red circle'')]
         (ImageConfig (js ''1:1'') (js ''1K''))],
      Inl (TypeError ''find'')) \<and>
   TypeError ''find'' \<noteq> NoResultProduced"
  by (simp add: generateImage_def getAI_with_key mock_def content_without_parts_def
      find_image_part_def first_def index_def NoResultProduced_def)

subsection \<open>The audio samples\<close>















subsection \<open>The transcript\<close>

lemma onmessage_transcript_prefix: "prefix prev (snd (onmessage_transcript message prev))"
  by (simp add: onmessage_transcript_def split: sum.splits)

lemma onmessage_prefix: "prefix prev (snd (onmessage B message prev))"
  using onmessage_transcript_prefix [of prev message]
  by (simp add: onmessage_def split: option.splits)

text \<open>
  C9 as stated fails: the audio step runs before the transcript step, and what it throws
  ends the handler. The first part of this message has the text \<^verbatim>\<open>yo\<close> and the audio
  payload \<^verbatim>\<open>AQID\<close>, the base64 of the three bytes 1, 2, 3; the typed-array view refuses an
  odd number of bytes with a RangeError, and the transcript stays as it was.
\<close>

theorem transcript_audio_counterexample:
  "Option.bind (Option.bind (serverContent (audio_text_message (js ''AQID'') (js ''yo''))) modelTurn)
     parts
     = Some [\<lparr>inlineData = Some \<lparr>data = Some (js ''AQID''), mimeType = Some (js ''audio/pcm'')\<rparr>,
              part_text = Some (js ''yo'')\<rparr>] \<and>
   onmessage (browser_decoding [1, 2, 3]) (audio_text_message (js ''AQID'') (js ''yo''))
     (js ''Hello'') = (Some RangeError, js ''Hello'') \<and>
   js ''Hello'' \<noteq> js ''Hello'' @ [space] @ js ''yo''"
  by (simp add: onmessage_def onmessage_audio_def first_part_def audio_text_message_def
      browser_decoding_def index_def truthy_def js_def)

text \<open>
  C9, amended. For every message, the transcript before the handler is a prefix of the
  transcript after it, so the transcript never shrinks. For a message whose first part
  has a text that is not empty, the transcript step appends one space and that text, and
  so does the whole handler whenever the audio step before it throws nothing: when the
  part has no audio payload, or when the payload decodes to an even number of bytes and
  the samples play.
\<close>

theorem transcript_appends:
  "prefix prev (snd (onmessage B message prev)) \<and>
   length prev \<le> length (snd (onmessage B message prev)) \<and>
   (serverContent message = Some sc \<and> modelTurn sc = Some turn \<and>
    parts turn = Some (p # ps) \<and> part_text p = Some t \<and> t \<noteq> [] \<longrightarrow>
      onmessage_transcript message prev = (None, prev @ [space] @ t) \<and>
      (\<not> truthy (Option.bind (inlineData p) data) \<longrightarrow>
         onmessage B message prev = (None, prev @ [space] @ t)) \<and>
      (\<forall>d bytes pcm.
         Option.bind (inlineData p) data = Some d \<and> d \<noteq> [] \<and> atob B d = Inr bytes \<and>
         int16_view bytes = Inr pcm \<and> play B (map decode_sample pcm) = None \<longrightarrow>
         onmessage B message prev = (None, prev @ [space] @ t)))"
proof -
  have a: "prefix prev (snd (onmessage B message prev))"
    by (rule onmessage_prefix)
  then have b: "length prev \<le> length (snd (onmessage B message prev))"
    by (rule prefix_length_le)
  have c: "onmessage_transcript message prev = (None, prev @ [space] @ t) \<and>
      (\<not> truthy (Option.bind (inlineData p) data) \<longrightarrow>
         onmessage B message prev = (None, prev @ [space] @ t)) \<and>
      (\<forall>d bytes pcm.
         Option.bind (inlineData p) data = Some d \<and> d \<noteq> [] \<and> atob B d = Inr bytes \<and>
         int16_view bytes = Inr pcm \<and> play B (map decode_sample pcm) = None \<longrightarrow>
         onmessage B message prev = (None, prev @ [space] @ t))"
    if m: "serverContent message = Some sc" "modelTurn sc = Some turn"
      "parts turn = Some (p # ps)" and t: "part_text p = Some t" "t \<noteq> []"
  proof -
    have fp: "first_part message = Inr (Some p)"
      using m by (simp add: first_part_def index_def)
    have tr: "onmessage_transcript message prev = (None, prev @ [space] @ t)"
      using fp t by (simp add: onmessage_transcript_def truthy_def)
    have quiet: "onmessage B message prev = (None, prev @ [space] @ t)"
      if "\<not> truthy (Option.bind (inlineData p) data)"
      using that fp tr by (simp add: onmessage_def onmessage_audio_def)
    have played: "onmessage B message prev = (None, prev @ [space] @ t)"
      if "Option.bind (inlineData p) data = Some d" "d \<noteq> []" "atob B d = Inr bytes"
        "int16_view bytes = Inr pcm" "play B (map decode_sample pcm) = None"
      for d bytes pcm
      using that fp tr by (simp add: onmessage_def onmessage_audio_def truthy_def)
    show ?thesis using tr quiet played by blast
  qed
  show ?thesis using a b c by blast
qed

theorem transcript_appends_witness:
  "onmessage quiet_browser (text_message (js ''hi'')) (js ''Hello'') = (None, js ''Hello hi'') \<and>
   onmessage (browser_decoding [1, 2, 3, 4]) (audio_text_message (js ''AQIDBA=='') (js ''yo''))
     (js ''Hello'') = (None, js ''Hello yo'') \<and>
   prefix (js ''Hello'') (js ''Hello hi'')"
proof -
  let ?p = "\<lparr>inlineData = None, part_text = Some (js ''hi'')\<rparr>"
  let ?turn = "\<lparr>parts = Some [?p]\<rparr>"
  let ?sc = "\<lparr>modelTurn = Some ?turn\<rparr>"
  let ?q = "\<lparr>inlineData = Some \<lparr>data = Some (js ''AQIDBA==''), mimeType = Some (js ''audio/pcm'')\<rparr>,
            part_text = Some (js ''yo'')\<rparr>"
  let ?turn2 = "\<lparr>parts = Some [?q]\<rparr>"
  let ?sc2 = "\<lparr>modelTurn = Some ?turn2\<rparr>"
  let ?B = "browser_decoding [1, 2, 3, 4]"
  have m: "serverContent (text_message (js ''hi'')) = Some ?sc \<and> modelTurn ?sc = Some ?turn \<and>
      parts ?turn = Some (?p # []) \<and> part_text ?p = Some (js ''hi'') \<and> js ''hi'' \<noteq> []"
    by (simp add: text_message_def js_def)
  have n: "\<not> truthy (Option.bind (inlineData ?p) data)"
    by (simp add: truthy_def)
  have m2: "serverContent (audio_text_message (js ''AQIDBA=='') (js ''yo'')) = Some ?sc2 \<and>
      modelTurn ?sc2 = Some ?turn2 \<and> parts ?turn2 = Some (?q # []) \<and>
      part_text ?q = Some (js ''yo'') \<and> js ''yo'' \<noteq> []"
    by (simp add: audio_text_message_def js_def)
  have n2: "Option.bind (inlineData ?q) data = Some (js ''AQIDBA=='') \<and> js ''AQIDBA=='' \<noteq> [] \<and>
      atob ?B (js ''AQIDBA=='') = Inr [1, 2, 3, 4] \<and>
      int16_view [1, 2, 3, 4] = Inr [push_bit 8 (ucast (2 :: 8 word)) + ucast (1 :: 8 word),
                                     push_bit 8 (ucast (4 :: 8 word)) + ucast (3 :: 8 word)] \<and>
      play ?B (map decode_sample [push_bit 8 (ucast (2 :: 8 word)) + ucast (1 :: 8 word),
                                     push_bit 8 (ucast (4 :: 8 word)) + ucast (3 :: 8 word)]) = None"
    by (simp add: browser_decoding_def js_def)
  have one: "onmessage quiet_browser (text_message (js ''hi'')) (js ''Hello'')
               = (None, js ''Hello'' @ [space] @ js ''hi'')"
    using transcript_appends [of "js ''Hello''" quiet_browser "text_message (js ''hi'')"
        ?sc ?turn ?p "[]" "js ''hi''"] m n by blast
  have two: "onmessage ?B (audio_text_message (js ''AQIDBA=='') (js ''yo'')) (js ''Hello'')
               = (None, js ''Hello'' @ [space] @ js ''yo'')"
    using transcript_appends [of "js ''Hello''" ?B "audio_text_message (js ''AQIDBA=='') (js ''yo'')"
        ?sc2 ?turn2 ?q "[]" "js ''yo''"] m2 n2 by blast
  show ?thesis using one two by (simp add: js_def space_def)
qed

end
